theory Spec2Isabelle
  imports Main "HOL-Library.AList"
begin

section \<open>Python values, dictionaries and exceptions\<close>

text \<open>
  The handlers of \<^verbatim>\<open>first_project/routers/users.py\<close>,
  \<^verbatim>\<open>first_project/routers/items.py\<close> and
  \<^verbatim>\<open>Pydantic for data validation/unset_and_patch.py\<close> work on a
  module-level Python \<^verbatim>\<open>dict\<close> from integer identifiers to records, each record
  being a \<^verbatim>\<open>dict\<close> from field names to values. A Python dictionary keeps its keys
  in insertion order, so it is an association list here: assigning to a key that is
  present keeps the key's position, assigning to a new key appends it, \<^verbatim>\<open>del\<close>
  removes the entry.
\<close>

datatype pyval = PyNone | PyInt int | PyStr string

type_synonym record_dict = "(string \<times> pyval) list"

type_synonym store = "(int \<times> record_dict) list"

text \<open>
  \<^verbatim>\<open>HTTPException(status_code, detail)\<close> is what the handlers raise themselves;
  \<^verbatim>\<open>ValueError\<close> is what \<^verbatim>\<open>max\<close> raises on an empty iterable and
  \<^verbatim>\<open>KeyError\<close> what a subscript on a missing key raises.
\<close>

datatype error = HTTPException nat string | ValueError | KeyError

definition HTTP_404_NOT_FOUND :: nat where
  "HTTP_404_NOT_FOUND = 404"

text \<open>\<^verbatim>\<open>d.keys()\<close> and \<^verbatim>\<open>d.values()\<close>, in the dictionary's order.\<close>

definition keys :: "('k \<times> 'v) list \<Rightarrow> 'k list" where
  "keys d = map fst d"

definition vals :: "('k \<times> 'v) list \<Rightarrow> 'v list" where
  "vals d = map snd d"

text \<open>\<^verbatim>\<open>d[k] = v\<close>\<close>

definition setitem :: "('k \<times> 'v) list \<Rightarrow> 'k \<Rightarrow> 'v \<Rightarrow> ('k \<times> 'v) list" where
  "setitem d k v = AList.update k v d"

text \<open>\<^verbatim>\<open>d[k]\<close>\<close>

definition getitem :: "('k \<times> 'v) list \<Rightarrow> 'k \<Rightarrow> error + 'v" where
  "getitem d k = (case map_of d k of None \<Rightarrow> Inl KeyError | Some v \<Rightarrow> Inr v)"

text \<open>\<^verbatim>\<open>del d[k]\<close>\<close>

definition delitem :: "('k \<times> 'v) list \<Rightarrow> 'k \<Rightarrow> error + ('k \<times> 'v) list" where
  "delitem d k = (if k \<in> set (keys d) then Inr (AList.delete k d) else Inl KeyError)"

text \<open>\<^verbatim>\<open>d.update(e)\<close>: the items of \<^verbatim>\<open>e\<close> are assigned from left to right.\<close>

definition dict_update :: "('k \<times> 'v) list \<Rightarrow> ('k \<times> 'v) list \<Rightarrow> ('k \<times> 'v) list" where
  "dict_update d e = fold (\<lambda>(k, v) acc. setitem acc k v) e d"

text \<open>The dictionary display \<^verbatim>\<open>{'id': i, **fields}\<close>.\<close>

definition id_and_fields :: "int \<Rightarrow> record_dict \<Rightarrow> record_dict" where
  "id_and_fields i fields = dict_update [(''id'', PyInt i)] fields"

text \<open>\<^verbatim>\<open>max(xs)\<close> over integers: \<^verbatim>\<open>ValueError\<close> on an empty argument.\<close>

fun py_max :: "int list \<Rightarrow> error + int" where
  "py_max [] = Inl ValueError"
| "py_max (x # xs) = Inr (fold max xs x)"

section \<open>The schemas of \<^verbatim>\<open>first_project/schemes/user.py\<close>\<close>

datatype UserType = ADMIN | CUSTOMER

text \<open>\<^verbatim>\<open>UserType\<close> is a \<^verbatim>\<open>str\<close> enumeration: a member is the string it is declared with.\<close>

fun UserType_value :: "UserType \<Rightarrow> string" where
  "UserType_value ADMIN = ''Admin''"
| "UserType_value CUSTOMER = ''Customer''"

record UserIn =
  name :: string
  user_type :: UserType

record UserOut =
  out_id :: int
  out_user_type :: UserType

text \<open>\<^verbatim>\<open>user.dict()\<close> for a \<^verbatim>\<open>UserIn\<close>: its fields in declaration order.\<close>

definition UserIn_dict :: "UserIn \<Rightarrow> record_dict" where
  "UserIn_dict user =
     [(''name'', PyStr (name user)), (''user_type'', PyStr (UserType_value (user_type user)))]"

text \<open>The fields of a \<^verbatim>\<open>UserOut\<close> as a dictionary, for comparison with stored records.\<close>

definition UserOut_dict :: "UserOut \<Rightarrow> record_dict" where
  "UserOut_dict out =
     [(''id'', PyInt (out_id out)), (''user_type'', PyStr (UserType_value (out_user_type out)))]"

section \<open>\<^verbatim>\<open>first_project/routers/users.py\<close>\<close>

text \<open>
  The dictionary \<^verbatim>\<open>users\<close> is imported from \<^verbatim>\<open>first_project.dummy_db\<close>; every
  handler takes its current value as the first argument and returns its value after the
  call next to the handler's result, an exception being \<open>Inl\<close>. An exception does not
  roll anything back, so the dictionary is returned in that case as well.
\<close>

definition get_all_users :: "store \<Rightarrow> (error + record_dict list) \<times> store" where
  "get_all_users users = (Inr (vals users), users)"

definition get_user_by_id :: "store \<Rightarrow> int \<Rightarrow> (error + record_dict) \<times> store" where
  "get_user_by_id users i =
     (if i \<notin> set (keys users)
      then (Inl (HTTPException HTTP_404_NOT_FOUND ''User not found''), users)
      else (getitem users i, users))"

definition create_user :: "store \<Rightarrow> UserIn \<Rightarrow> (error + UserOut) \<times> store" where
  "create_user users user =
     (case py_max (keys users) of
        Inl e \<Rightarrow> (Inl e, users)
      | Inr m \<Rightarrow>
          (let new_id = m + 1;
               user_out = \<lparr>out_id = new_id, out_user_type = user_type user\<rparr>
           in (Inr user_out, setitem users new_id (id_and_fields new_id (UserIn_dict user)))))"

definition update_user :: "store \<Rightarrow> UserIn \<Rightarrow> int \<Rightarrow> (error + UserOut) \<times> store" where
  "update_user users new_user user_id =
     (if user_id \<notin> set (keys users)
      then (Inl (HTTPException HTTP_404_NOT_FOUND ''User not found''), users)
      else (Inr \<lparr>out_id = user_id, out_user_type = user_type new_user\<rparr>,
            setitem users user_id (id_and_fields user_id (UserIn_dict new_user))))"

definition delete_user :: "store \<Rightarrow> int \<Rightarrow> (error + unit) \<times> store" where
  "delete_user users user_id =
     (if user_id \<notin> set (keys users)
      then (Inl (HTTPException HTTP_404_NOT_FOUND ''User not found''), users)
      else (case delitem users user_id of
              Inl e \<Rightarrow> (Inl e, users)
            | Inr users' \<Rightarrow> (Inr (), users')))"

section \<open>\<^verbatim>\<open>first_project/routers/items.py\<close>\<close>

text \<open>
  The dictionary \<^verbatim>\<open>items\<close> comes from \<^verbatim>\<open>first_project.dummy_db\<close> and the class
  \<^verbatim>\<open>Item\<close> from \<^verbatim>\<open>first_project.schemes.item\<close>. The handlers use an
  \<^verbatim>\<open>Item\<close> only through \<^verbatim>\<open>item.dict()\<close>, so they take that dictionary as their
  argument.
\<close>

definition show_all_items :: "store \<Rightarrow> (error + record_dict list) \<times> store" where
  "show_all_items items = (Inr (vals items), items)"

definition get_item_using_id :: "store \<Rightarrow> int \<Rightarrow> (error + record_dict) \<times> store" where
  "get_item_using_id items item_id =
     (if item_id \<notin> set (keys items)
      then (Inl (HTTPException HTTP_404_NOT_FOUND ''Item not found''), items)
      else (getitem items item_id, items))"

definition create_item :: "store \<Rightarrow> record_dict \<Rightarrow> (error + record_dict) \<times> store" where
  "create_item items item =
     (case py_max (keys items) of
        Inl e \<Rightarrow> (Inl e, items)
      | Inr m \<Rightarrow>
          (let new_id = m + 1;
               items' = setitem items new_id (id_and_fields new_id item)
           in (getitem items' new_id, items')))"

definition update_item :: "store \<Rightarrow> int \<Rightarrow> record_dict \<Rightarrow> (error + record_dict) \<times> store" where
  "update_item items item_id new_item =
     (if item_id \<notin> set (keys items)
      then (Inl (HTTPException HTTP_404_NOT_FOUND ''Item not found''), items)
      else (let items' = setitem items item_id (id_and_fields item_id new_item)
            in (getitem items' item_id, items')))"

definition delete_item :: "store \<Rightarrow> int \<Rightarrow> (error + unit) \<times> store" where
  "delete_item items item_id =
     (if item_id \<notin> set (keys items)
      then (Inl (HTTPException HTTP_404_NOT_FOUND ''Item not found''), items)
      else (case delitem items item_id of
              Inl e \<Rightarrow> (Inl e, items)
            | Inr items' \<Rightarrow> (Inr (), items')))"

section \<open>\<^verbatim>\<open>Pydantic for data validation/unset_and_patch.py\<close>\<close>

definition dummy_db :: store where
  "dummy_db =
     [(1, [(''name'', PyStr ''Alice''), (''age'', PyInt 30)]),
      (2, [(''name'', PyStr ''Bob''), (''age'', PyInt 25)]),
      (3, [(''name'', PyStr ''Charlie''), (''age'', PyInt 35)])]"

text \<open>
  \<^verbatim>\<open>UserUpdate\<close> has two optional fields, both \<^verbatim>\<open>None\<close> by default. A validated
  model also records which fields the request body supplied
  (\<^verbatim>\<open>model_fields_set\<close>): a field that was sent as \<^verbatim>\<open>null\<close> is in that set with
  the value \<^verbatim>\<open>None\<close>, a field that was left out is not in it.
\<close>

record UserUpdate =
  upd_name :: "string option"
  upd_age :: "int option"
  model_fields_set :: "string list"

definition opt_str :: "string option \<Rightarrow> pyval" where
  "opt_str v = (case v of None \<Rightarrow> PyNone | Some s \<Rightarrow> PyStr s)"

definition opt_int :: "int option \<Rightarrow> pyval" where
  "opt_int v = (case v of None \<Rightarrow> PyNone | Some n \<Rightarrow> PyInt n)"

text \<open>\<^verbatim>\<open>user_update.model_dump(exclude_unset=True)\<close>: the supplied fields, in declaration order.\<close>

definition model_dump_exclude_unset :: "UserUpdate \<Rightarrow> record_dict" where
  "model_dump_exclude_unset user_update =
     filter (\<lambda>(k, v). k \<in> set (model_fields_set user_update))
       [(''name'', opt_str (upd_name user_update)), (''age'', opt_int (upd_age user_update))]"

definition patch_get_all_users :: "store \<Rightarrow> (error + record_dict list) \<times> store" where
  "patch_get_all_users db = (Inr (vals db), db)"

text \<open>
  \<^verbatim>\<open>update_user\<close> of this module (the \<^verbatim>\<open>PATCH\<close> handler). The record is changed in
  place by \<^verbatim>\<open>user.update(update_fields)\<close>: the entry of \<^verbatim>\<open>user_id\<close> keeps its
  position in the dictionary and holds the updated record, which is also the result.
\<close>

definition patch_update_user :: "store \<Rightarrow> int \<Rightarrow> UserUpdate \<Rightarrow> (error + record_dict) \<times> store" where
  "patch_update_user db user_id user_update =
     (if user_id \<notin> set (keys db)
      then (Inl (HTTPException HTTP_404_NOT_FOUND ''User not found''), db)
      else (case getitem db user_id of
              Inl e \<Rightarrow> (Inl e, db)
            | Inr user \<Rightarrow>
                (let update_fields = model_dump_exclude_unset user_update;
                     user' = dict_update user update_fields
                 in (Inr user', setitem db user_id user'))))"

section \<open>Sequences of calls on the users router\<close>

datatype user_call =
    GetAllUsers
  | GetUserById int
  | CreateUser UserIn
  | UpdateUser UserIn int
  | DeleteUser int

datatype user_result =
    Records "record_dict list"
  | Record record_dict
  | Out UserOut
  | NoContent

fun call_user :: "store \<Rightarrow> user_call \<Rightarrow> (error + user_result) \<times> store" where
  "call_user users GetAllUsers = map_prod (map_sum (\<lambda>e. e) Records) (\<lambda>s. s) (get_all_users users)"
| "call_user users (GetUserById i) = map_prod (map_sum (\<lambda>e. e) Record) (\<lambda>s. s) (get_user_by_id users i)"
| "call_user users (CreateUser u) = map_prod (map_sum (\<lambda>e. e) Out) (\<lambda>s. s) (create_user users u)"
| "call_user users (UpdateUser u i) = map_prod (map_sum (\<lambda>e. e) Out) (\<lambda>s. s) (update_user users u i)"
| "call_user users (DeleteUser i) = map_prod (map_sum (\<lambda>e. e) (\<lambda>_. NoContent)) (\<lambda>s. s) (delete_user users i)"

text \<open>The calls of a list, one after the other, each on the dictionary the previous one left.\<close>

fun run_users :: "store \<Rightarrow> user_call list \<Rightarrow> (error + user_result) list \<times> store" where
  "run_users users [] = ([], users)"
| "run_users users (c # cs) =
     (case call_user users c of
        (r, users') \<Rightarrow> (case run_users users' cs of (rs, users'') \<Rightarrow> (r # rs, users'')))"

text \<open>The identifiers that the successful \<^verbatim>\<open>create_user\<close> calls of a run returned, in order.\<close>

fun created_ids :: "user_call list \<Rightarrow> (error + user_result) list \<Rightarrow> int list" where
  "created_ids (CreateUser u # cs) (Inr (Out out) # rs) = out_id out # created_ids cs rs"
| "created_ids (c # cs) (r # rs) = created_ids cs rs"
| "created_ids _ _ = []"

text \<open>
  The successful \<^verbatim>\<open>create_user\<close> calls of a run: for each of them, the dictionary
  it was called on and the identifier it returned.
\<close>

fun create_entry :: "store \<Rightarrow> user_call \<Rightarrow> (error + user_result) \<Rightarrow> (store \<times> int) list" where
  "create_entry users (CreateUser u) (Inr (Out out)) = [(users, out_id out)]"
| "create_entry users c r = []"

fun successful_creates :: "store \<Rightarrow> user_call list \<Rightarrow> (store \<times> int) list" where
  "successful_creates users [] = []"
| "successful_creates users (c # cs) =
     (case call_user users c of
        (r, users') \<Rightarrow> create_entry users c r @ successful_creates users' cs)"

section \<open>Facts about the dictionary operations\<close>

lemma fold_max_Max: "fold max xs (x::int) = Max (set (x # xs))"
  using Max.set_eq_fold [of x xs] by simp

lemma py_max_nonempty: "xs \<noteq> [] \<Longrightarrow> py_max xs = Inr (Max (set xs))"
  by (cases xs) (simp_all add: fold_max_Max)

lemma keys_eq_Nil [simp]: "keys d = [] \<longleftrightarrow> d = []"
  by (simp add: keys_def)

lemma set_keys_setitem: "set (keys (setitem d k v)) = insert k (set (keys d))"
  using AList.dom_update [of k v d] by (simp add: keys_def setitem_def)

lemma map_of_setitem: "map_of (setitem d k v) = (map_of d)(k \<mapsto> v)"
  by (simp add: setitem_def update_conv')

lemma getitem_setitem_same: "getitem (setitem d k v) k = Inr v"
  by (simp add: getitem_def map_of_setitem)

lemma in_keys_iff: "k \<in> set (keys d) \<longleftrightarrow> map_of d k \<noteq> None"
  by (simp add: keys_def map_of_eq_None_iff)

lemma getitem_in_keys: "k \<in> set (keys d) \<Longrightarrow> \<exists>v. getitem d k = Inr v \<and> map_of d k = Some v"
  by (auto simp: in_keys_iff getitem_def)

lemma map_of_dict_update: "map_of (dict_update d e) = map_of d ++ map_of (rev e)"
  unfolding dict_update_def
  by (induction e arbitrary: d)
    (auto simp: map_of_setitem fun_eq_iff map_add_def split: option.splits)

lemma keys_dict_update: "set (keys (dict_update d e)) = set (keys d) \<union> set (keys e)"
  unfolding dict_update_def
proof (induction e arbitrary: d)
  case Nil
  then show ?case by (simp add: keys_def)
next
  case (Cons a e)
  obtain k v where a: "a = (k, v)" by (cases a)
  have "set (keys (a # e)) = insert k (set (keys e))" by (simp add: keys_def a)
  then show ?case using Cons [of "setitem d k v"] by (simp add: a set_keys_setitem)
qed

lemma distinct_setitem: "distinct (keys d) \<Longrightarrow> distinct (keys (setitem d k v))"
  by (simp add: keys_def setitem_def distinct_update)

lemma distinct_dict_update: "distinct (keys d) \<Longrightarrow> distinct (keys (dict_update d e))"
  unfolding dict_update_def
  by (induction e arbitrary: d) (auto simp: distinct_setitem)

lemma setitem_new: "k \<notin> set (keys d) \<Longrightarrow> setitem d k v = d @ [(k, v)]"
  unfolding setitem_def keys_def by (induction d) auto

lemma keys_setitem_present: "k \<in> set (keys d) \<Longrightarrow> keys (setitem d k v) = keys d"
  unfolding setitem_def keys_def by (induction d) auto

section \<open>Creating on an empty and on a non-empty dictionary\<close>

text \<open>
  C9. \<^verbatim>\<open>create_user\<close> and \<^verbatim>\<open>create_item\<close> succeed on every non-empty
  dictionary, where the new identifier is the largest key plus one. On the empty
  dictionary \<^verbatim>\<open>max(users.keys())\<close> raises \<^verbatim>\<open>ValueError\<close>, which is not the
  404 \<^verbatim>\<open>HTTPException\<close>; nothing is stored and no identifier, in particular not 1,
  is returned.
\<close>

theorem create_total_only_on_nonempty:
  "(users \<noteq> [] \<longrightarrow>
      create_user users user =
        (Inr \<lparr>out_id = Max (set (keys users)) + 1, out_user_type = user_type user\<rparr>,
         setitem users (Max (set (keys users)) + 1)
           (id_and_fields (Max (set (keys users)) + 1) (UserIn_dict user))))
   \<and> (items \<noteq> [] \<longrightarrow>
      create_item items item =
        (Inr (id_and_fields (Max (set (keys items)) + 1) item),
         setitem items (Max (set (keys items)) + 1)
           (id_and_fields (Max (set (keys items)) + 1) item)))
   \<and> create_user [] user = (Inl ValueError, [])
   \<and> create_item [] item = (Inl ValueError, [])
   \<and> ValueError \<noteq> HTTPException HTTP_404_NOT_FOUND detail"
  by (simp add: create_user_def create_item_def py_max_nonempty Let_def getitem_setitem_same
      keys_def)

theorem create_total_only_on_nonempty_witness:
  "create_user [(1, [])] \<lparr>name = ''Bob'', user_type = ADMIN\<rparr> =
     (Inr \<lparr>out_id = 2, out_user_type = ADMIN\<rparr>,
      [(1, []), (2, [(''id'', PyInt 2), (''name'', PyStr ''Bob''), (''user_type'', PyStr ''Admin'')])])
   \<and> create_item [(1, [])] [(''price'', PyInt 5)] =
     (Inr [(''id'', PyInt 2), (''price'', PyInt 5)],
      [(1, []), (2, [(''id'', PyInt 2), (''price'', PyInt 5)])])
   \<and> create_user [] \<lparr>name = ''Bob'', user_type = ADMIN\<rparr> = (Inl ValueError, [])
   \<and> create_item [] [(''price'', PyInt 5)] = (Inl ValueError, [])"
  using create_total_only_on_nonempty
    [of "[(1, [])]" "\<lparr>name = ''Bob'', user_type = ADMIN\<rparr>" "[(1, [])]" "[(''price'', PyInt 5)]"
      "''User not found''"]
  by (simp add: keys_def setitem_def id_and_fields_def dict_update_def UserIn_dict_def)

section \<open>The handlers' results, by cases on the identifier\<close>

lemma keys_delete_notin: "k \<notin> set (keys (AList.delete k d))"
  using AList.delete_notin_dom [of k d] by (simp add: keys_def)

lemma delitem_present: "k \<in> set (keys d) \<Longrightarrow> delitem d k = Inr (AList.delete k d)"
  by (simp add: delitem_def)

lemma get_user_by_id_absent:
  "i \<notin> set (keys users) \<Longrightarrow>
   get_user_by_id users i = (Inl (HTTPException HTTP_404_NOT_FOUND ''User not found''), users)"
  by (simp add: get_user_by_id_def)

lemma get_user_by_id_present:
  "i \<in> set (keys users) \<Longrightarrow> \<exists>r. get_user_by_id users i = (Inr r, users) \<and> map_of users i = Some r"
  using getitem_in_keys [of i users] by (auto simp: get_user_by_id_def)

lemma update_user_absent:
  "i \<notin> set (keys users) \<Longrightarrow>
   update_user users u i = (Inl (HTTPException HTTP_404_NOT_FOUND ''User not found''), users)"
  by (simp add: update_user_def)

lemma update_user_present:
  "i \<in> set (keys users) \<Longrightarrow>
   update_user users u i =
     (Inr \<lparr>out_id = i, out_user_type = user_type u\<rparr>,
      setitem users i (id_and_fields i (UserIn_dict u)))"
  by (simp add: update_user_def)

lemma delete_user_absent:
  "i \<notin> set (keys users) \<Longrightarrow>
   delete_user users i = (Inl (HTTPException HTTP_404_NOT_FOUND ''User not found''), users)"
  by (simp add: delete_user_def)

lemma delete_user_present:
  "i \<in> set (keys users) \<Longrightarrow> delete_user users i = (Inr (), AList.delete i users)"
  by (simp add: delete_user_def delitem_present)

lemma get_item_using_id_absent:
  "i \<notin> set (keys items) \<Longrightarrow>
   get_item_using_id items i = (Inl (HTTPException HTTP_404_NOT_FOUND ''Item not found''), items)"
  by (simp add: get_item_using_id_def)

lemma get_item_using_id_present:
  "i \<in> set (keys items) \<Longrightarrow>
   \<exists>r. get_item_using_id items i = (Inr r, items) \<and> map_of items i = Some r"
  using getitem_in_keys [of i items] by (auto simp: get_item_using_id_def)

lemma update_item_absent:
  "i \<notin> set (keys items) \<Longrightarrow>
   update_item items i new = (Inl (HTTPException HTTP_404_NOT_FOUND ''Item not found''), items)"
  by (simp add: update_item_def)

lemma update_item_present:
  "i \<in> set (keys items) \<Longrightarrow>
   update_item items i new =
     (Inr (id_and_fields i new), setitem items i (id_and_fields i new))"
  by (simp add: update_item_def Let_def getitem_setitem_same)

lemma delete_item_absent:
  "i \<notin> set (keys items) \<Longrightarrow>
   delete_item items i = (Inl (HTTPException HTTP_404_NOT_FOUND ''Item not found''), items)"
  by (simp add: delete_item_def)

lemma delete_item_present:
  "i \<in> set (keys items) \<Longrightarrow> delete_item items i = (Inr (), AList.delete i items)"
  by (simp add: delete_item_def delitem_present)

lemma patch_update_user_absent:
  "i \<notin> set (keys db) \<Longrightarrow>
   patch_update_user db i upd = (Inl (HTTPException HTTP_404_NOT_FOUND ''User not found''), db)"
  by (simp add: patch_update_user_def)

lemma patch_update_user_present:
  "map_of db i = Some user \<Longrightarrow>
   patch_update_user db i upd =
     (Inr (dict_update user (model_dump_exclude_unset upd)),
      setitem db i (dict_update user (model_dump_exclude_unset upd)))"
  by (simp add: patch_update_user_def in_keys_iff getitem_def Let_def)

section \<open>Absent identifiers\<close>

text \<open>
  C4. Fetching, replacing, merging into and deleting an identifier that is not a key
  of the dictionary raises the 404 \<^verbatim>\<open>HTTPException\<close> and leaves the dictionary as
  it was; on a key of the dictionary each of them succeeds, so the 404 is raised exactly
  for the absent identifiers. After a successful delete the identifier is absent:
  fetching it and deleting it again both raise the 404. (The statement is about the
  handler functions; the bounds \<^verbatim>\<open>ge=1\<close> on their parameters are checked by the
  framework before a handler is called.)
\<close>

theorem not_found_iff_absent:
  "(i \<notin> set (keys s) \<longrightarrow>
      get_user_by_id s i = (Inl (HTTPException HTTP_404_NOT_FOUND ''User not found''), s)
    \<and> update_user s u i = (Inl (HTTPException HTTP_404_NOT_FOUND ''User not found''), s)
    \<and> delete_user s i = (Inl (HTTPException HTTP_404_NOT_FOUND ''User not found''), s)
    \<and> get_item_using_id s i = (Inl (HTTPException HTTP_404_NOT_FOUND ''Item not found''), s)
    \<and> update_item s i new = (Inl (HTTPException HTTP_404_NOT_FOUND ''Item not found''), s)
    \<and> delete_item s i = (Inl (HTTPException HTTP_404_NOT_FOUND ''Item not found''), s)
    \<and> patch_update_user s i upd = (Inl (HTTPException HTTP_404_NOT_FOUND ''User not found''), s))
   \<and> (i \<in> set (keys s) \<longrightarrow>
      (\<exists>r. fst (get_user_by_id s i) = Inr r)
    \<and> (\<exists>r. fst (update_user s u i) = Inr r)
    \<and> fst (delete_user s i) = Inr ()
    \<and> (\<exists>r. fst (get_item_using_id s i) = Inr r)
    \<and> (\<exists>r. fst (update_item s i new) = Inr r)
    \<and> fst (delete_item s i) = Inr ()
    \<and> (\<exists>r. fst (patch_update_user s i upd) = Inr r)
    \<and> get_user_by_id (snd (delete_user s i)) i =
        (Inl (HTTPException HTTP_404_NOT_FOUND ''User not found''), snd (delete_user s i))
    \<and> delete_user (snd (delete_user s i)) i =
        (Inl (HTTPException HTTP_404_NOT_FOUND ''User not found''), snd (delete_user s i))
    \<and> get_item_using_id (snd (delete_item s i)) i =
        (Inl (HTTPException HTTP_404_NOT_FOUND ''Item not found''), snd (delete_item s i))
    \<and> delete_item (snd (delete_item s i)) i =
        (Inl (HTTPException HTTP_404_NOT_FOUND ''Item not found''), snd (delete_item s i)))"
proof (intro conjI impI)
  assume p: "i \<in> set (keys s)"
  show "\<exists>r. fst (get_user_by_id s i) = Inr r"
    using get_user_by_id_present [OF p] by auto
  show "\<exists>r. fst (update_user s u i) = Inr r"
    by (simp add: update_user_present [OF p])
  show "fst (delete_user s i) = Inr ()"
    by (simp add: delete_user_present [OF p])
  show "\<exists>r. fst (get_item_using_id s i) = Inr r"
    using get_item_using_id_present [OF p] by auto
  show "\<exists>r. fst (update_item s i new) = Inr r"
    by (simp add: update_item_present [OF p])
  show "fst (delete_item s i) = Inr ()"
    by (simp add: delete_item_present [OF p])
  show "\<exists>r. fst (patch_update_user s i upd) = Inr r"
    using p patch_update_user_present [of s i _ upd] by (auto simp: in_keys_iff)
  show "get_user_by_id (snd (delete_user s i)) i =
        (Inl (HTTPException HTTP_404_NOT_FOUND ''User not found''), snd (delete_user s i))"
    by (simp add: delete_user_present [OF p] get_user_by_id_absent keys_delete_notin)
  show "delete_user (snd (delete_user s i)) i =
        (Inl (HTTPException HTTP_404_NOT_FOUND ''User not found''), snd (delete_user s i))"
    by (simp add: delete_user_present [OF p] delete_user_absent keys_delete_notin)
  show "get_item_using_id (snd (delete_item s i)) i =
        (Inl (HTTPException HTTP_404_NOT_FOUND ''Item not found''), snd (delete_item s i))"
    by (simp add: delete_item_present [OF p] get_item_using_id_absent keys_delete_notin)
  show "delete_item (snd (delete_item s i)) i =
        (Inl (HTTPException HTTP_404_NOT_FOUND ''Item not found''), snd (delete_item s i))"
    by (simp add: delete_item_present [OF p] delete_item_absent keys_delete_notin)
qed (simp_all add: get_user_by_id_absent update_user_absent delete_user_absent
      get_item_using_id_absent update_item_absent delete_item_absent patch_update_user_absent)


theorem not_found_iff_absent_witness:
  "get_user_by_id dummy_db 4 = (Inl (HTTPException 404 ''User not found''), dummy_db)
   \<and> delete_user dummy_db 4 = (Inl (HTTPException 404 ''User not found''), dummy_db)
   \<and> patch_update_user dummy_db 4 \<lparr>upd_name = None, upd_age = Some 31, model_fields_set = [''age'']\<rparr>
       = (Inl (HTTPException 404 ''User not found''), dummy_db)
   \<and> fst (delete_user dummy_db 1) = Inr ()
   \<and> get_user_by_id (snd (delete_user dummy_db 1)) 1 =
       (Inl (HTTPException 404 ''User not found''), snd (delete_user dummy_db 1))
   \<and> delete_user (snd (delete_user dummy_db 1)) 1 =
       (Inl (HTTPException 404 ''User not found''), snd (delete_user dummy_db 1))"
  using not_found_iff_absent
      [of 4 dummy_db "\<lparr>name = ''Bob'', user_type = ADMIN\<rparr>" "[]"
        "\<lparr>upd_name = None, upd_age = Some 31, model_fields_set = [''age'']\<rparr>"]
    not_found_iff_absent
      [of 1 dummy_db "\<lparr>name = ''Bob'', user_type = ADMIN\<rparr>" "[]"
        "\<lparr>upd_name = None, upd_age = Some 31, model_fields_set = [''age'']\<rparr>"]
  by (simp add: dummy_db_def keys_def HTTP_404_NOT_FOUND_def)

section \<open>Listing\<close>

lemma map_getitem_keys:
  "distinct (keys d) \<Longrightarrow> map (getitem d) (keys d) = map Inr (vals d)"
proof (induction d)
  case Nil
  then show ?case by (simp add: keys_def vals_def)
next
  case (Cons a d)
  obtain k v where a: "a = (k, v)" by (cases a)
  from Cons.prems have nk: "k \<notin> set (keys d)" and dd: "distinct (keys d)"
    by (simp_all add: keys_def a)
  have "map (getitem (a # d)) (keys d) = map (getitem d) (keys d)"
    using nk by (auto simp: getitem_def a)
  with Cons.IH [OF dd] show ?case
    by (simp add: a keys_def vals_def getitem_def)
qed

lemma Max_keys_fresh: "d \<noteq> [] \<Longrightarrow> Max (set (keys d)) + 1 \<notin> set (keys (d :: store))"
proof
  assume ne: "d \<noteq> []" and "Max (set (keys d)) + 1 \<in> set (keys d)"
  then have "Max (set (keys d)) + 1 \<le> Max (set (keys d))" by (intro Max_ge) simp_all
  then show False by simp
qed

text \<open>
  C8. The three listing handlers return the values of the dictionary in the
  dictionary's order and return the dictionary as it was. There is one value per key;
  with pairwise different keys the value at each position is the record stored under
  the key at that position, so every stored record occurs exactly once. The order is
  the insertion order: the record of a create call comes last.
\<close>

theorem list_all_records:
  "get_all_users s = (Inr (vals s), s)
   \<and> show_all_items s = (Inr (vals s), s)
   \<and> patch_get_all_users s = (Inr (vals s), s)
   \<and> length (vals s) = length (keys s)
   \<and> (distinct (keys s) \<longrightarrow> map (getitem s) (keys s) = map Inr (vals s))
   \<and> (s \<noteq> [] \<longrightarrow>
        fst (show_all_items (snd (create_item s item))) =
          Inr (vals s @ [id_and_fields (Max (set (keys s)) + 1) item])
      \<and> fst (get_all_users (snd (create_user s user))) =
          Inr (vals s @ [id_and_fields (Max (set (keys s)) + 1) (UserIn_dict user)]))"
proof (intro conjI impI)
  assume "distinct (keys s)"
  then show "map (getitem s) (keys s) = map Inr (vals s)"
    by (rule map_getitem_keys)
next
  assume ne: "s \<noteq> []"
  show "fst (show_all_items (snd (create_item s item))) =
          Inr (vals s @ [id_and_fields (Max (set (keys s)) + 1) item])"
    using ne by (simp add: create_item_def py_max_nonempty Let_def show_all_items_def
        setitem_new [OF Max_keys_fresh [OF ne]] vals_def)
  show "fst (get_all_users (snd (create_user s user))) =
          Inr (vals s @ [id_and_fields (Max (set (keys s)) + 1) (UserIn_dict user)])"
    using ne by (simp add: create_user_def py_max_nonempty Let_def get_all_users_def
        setitem_new [OF Max_keys_fresh [OF ne]] vals_def)
qed (simp_all add: get_all_users_def show_all_items_def patch_get_all_users_def vals_def
      keys_def)

theorem list_all_records_witness:
  "get_all_users dummy_db =
     (Inr [[(''name'', PyStr ''Alice''), (''age'', PyInt 30)],
           [(''name'', PyStr ''Bob''), (''age'', PyInt 25)],
           [(''name'', PyStr ''Charlie''), (''age'', PyInt 35)]], dummy_db)
   \<and> distinct (keys dummy_db)
   \<and> map (getitem dummy_db) (keys dummy_db) = map Inr (vals dummy_db)
   \<and> fst (show_all_items (snd (create_item dummy_db [(''price'', PyInt 5)]))) =
       Inr [[(''name'', PyStr ''Alice''), (''age'', PyInt 30)],
            [(''name'', PyStr ''Bob''), (''age'', PyInt 25)],
            [(''name'', PyStr ''Charlie''), (''age'', PyInt 35)],
            [(''id'', PyInt 4), (''price'', PyInt 5)]]"
  using list_all_records [of dummy_db "[(''price'', PyInt 5)]" "\<lparr>name = ''Bob'', user_type = ADMIN\<rparr>"]
  by (simp add: dummy_db_def keys_def vals_def id_and_fields_def dict_update_def setitem_def)

section \<open>Fetching after creating\<close>

lemma id_and_fields_UserIn_dict:
  "id_and_fields i (UserIn_dict user) =
     [(''id'', PyInt i), (''name'', PyStr (name user)),
      (''user_type'', PyStr (UserType_value (user_type user)))]"
  by (simp add: id_and_fields_def UserIn_dict_def dict_update_def setitem_def)

lemma create_user_Inr:
  assumes "create_user users user = (Inr out, users')"
  shows "users \<noteq> []"
    and "out = \<lparr>out_id = Max (set (keys users)) + 1, out_user_type = user_type user\<rparr>"
    and "users' = setitem users (Max (set (keys users)) + 1)
           (id_and_fields (Max (set (keys users)) + 1) (UserIn_dict user))"
proof -
  show ne: "users \<noteq> []"
    using assms by (auto simp: create_user_def keys_def)
  show "out = \<lparr>out_id = Max (set (keys users)) + 1, out_user_type = user_type user\<rparr>"
    using assms ne by (simp add: create_user_def py_max_nonempty Let_def)
  show "users' = setitem users (Max (set (keys users)) + 1)
           (id_and_fields (Max (set (keys users)) + 1) (UserIn_dict user))"
    using assms ne by (simp add: create_user_def py_max_nonempty Let_def)
qed

text \<open>
  C6. When \<^verbatim>\<open>create_user\<close> has returned an identifier, fetching that identifier
  from the dictionary it left returns the record made of the assigned identifier and
  the fields of the request, \<^verbatim>\<open>name\<close> and \<^verbatim>\<open>user_type\<close>, with the values of the
  request and nothing else; the fetch changes nothing.
\<close>

theorem get_after_create_returns_fields_and_id:
  assumes "create_user users user = (Inr out, users')"
  shows "get_user_by_id users' (out_id out) =
           (Inr [(''id'', PyInt (out_id out)), (''name'', PyStr (name user)),
                 (''user_type'', PyStr (UserType_value (user_type user)))], users')
         \<and> map_of (id_and_fields (out_id out) (UserIn_dict user)) =
             (map_of (UserIn_dict user))(''id'' \<mapsto> PyInt (out_id out))
         \<and> id_and_fields (out_id out) (UserIn_dict user) =
             [(''id'', PyInt (out_id out)), (''name'', PyStr (name user)),
              (''user_type'', PyStr (UserType_value (user_type user)))]"
proof -
  let ?n = "Max (set (keys users)) + 1"
  from create_user_Inr [OF assms]
  have out: "out_id out = ?n"
    and s: "users' = setitem users ?n (id_and_fields ?n (UserIn_dict user))"
    by simp_all
  have "get_user_by_id users' ?n = (Inr (id_and_fields ?n (UserIn_dict user)), users')"
    by (simp add: s get_user_by_id_def set_keys_setitem getitem_setitem_same)
  moreover have "map_of (id_and_fields (out_id out) (UserIn_dict user)) =
             (map_of (UserIn_dict user))(''id'' \<mapsto> PyInt (out_id out))"
    unfolding id_and_fields_UserIn_dict by (auto simp: UserIn_dict_def fun_eq_iff)
  ultimately show ?thesis
    by (simp add: out id_and_fields_UserIn_dict)
qed

theorem get_after_create_returns_fields_and_id_witness:
  "create_user dummy_db \<lparr>name = ''Dora'', user_type = CUSTOMER\<rparr> =
     (Inr \<lparr>out_id = 4, out_user_type = CUSTOMER\<rparr>,
      dummy_db @ [(4, [(''id'', PyInt 4), (''name'', PyStr ''Dora''),
                       (''user_type'', PyStr ''Customer'')])])
   \<and> get_user_by_id
       (dummy_db @ [(4, [(''id'', PyInt 4), (''name'', PyStr ''Dora''),
                         (''user_type'', PyStr ''Customer'')])]) 4 =
     (Inr [(''id'', PyInt 4), (''name'', PyStr ''Dora''), (''user_type'', PyStr ''Customer'')],
      dummy_db @ [(4, [(''id'', PyInt 4), (''name'', PyStr ''Dora''),
                       (''user_type'', PyStr ''Customer'')])])"
proof -
  have c: "create_user dummy_db \<lparr>name = ''Dora'', user_type = CUSTOMER\<rparr> =
     (Inr \<lparr>out_id = 4, out_user_type = CUSTOMER\<rparr>,
      dummy_db @ [(4, [(''id'', PyInt 4), (''name'', PyStr ''Dora''),
                       (''user_type'', PyStr ''Customer'')])])"
    by (simp add: create_user_def dummy_db_def keys_def Let_def setitem_def
        id_and_fields_UserIn_dict)
  show ?thesis
    using c get_after_create_returns_fields_and_id [OF c] by simp
qed

section \<open>Creating on the empty dictionary\<close>

text \<open>
  C1. On the empty dictionary \<^verbatim>\<open>create_user\<close> and \<^verbatim>\<open>create_item\<close> raise
  \<^verbatim>\<open>ValueError\<close> and store nothing: no identifier is assigned, where the claim
  promises the identifier 1.
\<close>

theorem create_on_empty_raises_ValueError:
  "create_user [] \<lparr>name = ''Alice'', user_type = ADMIN\<rparr> = (Inl ValueError, [])
   \<and> create_item [] [(''name'', PyStr ''Alice'')] = (Inl ValueError, [])"
  by (simp add: create_user_def create_item_def keys_def)

section \<open>Replacing a record\<close>

lemma map_of_id_and_fields_dropped:
  "k \<noteq> ''id'' \<Longrightarrow> k \<notin> set (keys fs) \<Longrightarrow> map_of (id_and_fields i fs) k = None"
proof -
  assume a: "k \<noteq> ''id''" "k \<notin> set (keys fs)"
  have "k \<notin> set (keys (id_and_fields i fs))"
    using a by (simp add: id_and_fields_def keys_dict_update) (simp add: keys_def)
  then show ?thesis by (simp add: in_keys_iff)
qed

lemma setitem_setitem_same: "setitem (setitem d k v) k v = setitem d k v"
  by (simp add: setitem_def)

text \<open>
  C5. On a key of the dictionary, \<^verbatim>\<open>update_item\<close> and the \<^verbatim>\<open>PUT\<close> handler
  \<^verbatim>\<open>update_user\<close> store \<^verbatim>\<open>{'id': id, **fields}\<close> under that key, whatever the
  old record was: the keys of the stored record are \<^verbatim>\<open>id\<close> and the keys of the new
  fields, so a field of the old record that the new fields do not name is gone. The
  other records are untouched, and replacing a second time with the same fields leaves
  the dictionary of the first replacement. Replacing \<^verbatim>\<open>{"name": "Alice", "age": 30}\<close>
  by \<^verbatim>\<open>{"name": "Bob"}\<close> stores \<^verbatim>\<open>{"id": id, "name": "Bob"}\<close>.
\<close>

theorem update_replaces_whole_record:
  assumes "i \<in> set (keys s)"
  shows "update_item s i new =
           (Inr (id_and_fields i new), setitem s i (id_and_fields i new))
         \<and> update_user s u i =
           (Inr \<lparr>out_id = i, out_user_type = user_type u\<rparr>,
            setitem s i (id_and_fields i (UserIn_dict u)))
         \<and> map_of (snd (update_item s i new)) i = Some (id_and_fields i new)
         \<and> map_of (snd (update_user s u i)) i = Some (id_and_fields i (UserIn_dict u))
         \<and> set (keys (id_and_fields i new)) = insert ''id'' (set (keys new))
         \<and> (\<forall>k. k \<noteq> ''id'' \<and> k \<notin> set (keys new) \<longrightarrow> map_of (id_and_fields i new) k = None)
         \<and> (\<forall>j. j \<noteq> i \<longrightarrow> map_of (snd (update_item s i new)) j = map_of s j)
         \<and> keys (snd (update_item s i new)) = keys s
         \<and> update_item (snd (update_item s i new)) i new = update_item s i new
         \<and> update_user (snd (update_user s u i)) u i = update_user s u i
         \<and> update_item [(i, [(''name'', PyStr ''Alice''), (''age'', PyInt 30)])] i
             [(''name'', PyStr ''Bob'')] =
           (Inr [(''id'', PyInt i), (''name'', PyStr ''Bob'')],
            [(i, [(''id'', PyInt i), (''name'', PyStr ''Bob'')])])"
proof (intro conjI allI impI)
  show ui: "update_item s i new =
           (Inr (id_and_fields i new), setitem s i (id_and_fields i new))"
    by (rule update_item_present [OF assms])
  show uu: "update_user s u i =
           (Inr \<lparr>out_id = i, out_user_type = user_type u\<rparr>,
            setitem s i (id_and_fields i (UserIn_dict u)))"
    by (rule update_user_present [OF assms])
  show "map_of (snd (update_item s i new)) i = Some (id_and_fields i new)"
    by (simp add: ui map_of_setitem)
  show "map_of (snd (update_user s u i)) i = Some (id_and_fields i (UserIn_dict u))"
    by (simp add: uu map_of_setitem)
  show "set (keys (id_and_fields i new)) = insert ''id'' (set (keys new))"
    by (simp add: id_and_fields_def keys_dict_update) (simp add: keys_def)
  show "keys (snd (update_item s i new)) = keys s"
    by (simp add: ui keys_setitem_present [OF assms])
  have k': "i \<in> set (keys (setitem s i v))" for v
    by (simp add: set_keys_setitem)
  show "update_item (snd (update_item s i new)) i new = update_item s i new"
    by (simp add: ui update_item_present [OF k'] setitem_setitem_same)
  show "update_user (snd (update_user s u i)) u i = update_user s u i"
    by (simp add: uu update_user_present [OF k'] setitem_setitem_same)
  show "update_item [(i, [(''name'', PyStr ''Alice''), (''age'', PyInt 30)])] i
             [(''name'', PyStr ''Bob'')] =
           (Inr [(''id'', PyInt i), (''name'', PyStr ''Bob'')],
            [(i, [(''id'', PyInt i), (''name'', PyStr ''Bob'')])])"
    by (simp add: update_item_def keys_def Let_def setitem_def id_and_fields_def
        dict_update_def getitem_def)
next
  fix k assume "k \<noteq> ''id'' \<and> k \<notin> set (keys new)"
  then show "map_of (id_and_fields i new) k = None"
    by (simp add: map_of_id_and_fields_dropped)
next
  fix j assume "j \<noteq> i"
  then show "map_of (snd (update_item s i new)) j = map_of s j"
    by (simp add: update_item_present [OF assms] map_of_setitem)
qed

theorem update_replaces_whole_record_witness:
  "1 \<in> set (keys [(1::int, [(''name'', PyStr ''Alice''), (''age'', PyInt 30)])])
   \<and> snd (update_item [(1, [(''name'', PyStr ''Alice''), (''age'', PyInt 30)])] 1
            [(''name'', PyStr ''Bob'')]) =
       [(1, [(''id'', PyInt 1), (''name'', PyStr ''Bob'')])]
   \<and> map_of (id_and_fields 1 [(''name'', PyStr ''Bob'')]) ''age'' = None
   \<and> update_item [(1, [(''id'', PyInt 1), (''name'', PyStr ''Bob'')])] 1 [(''name'', PyStr ''Bob'')] =
       (Inr [(''id'', PyInt 1), (''name'', PyStr ''Bob'')],
        [(1, [(''id'', PyInt 1), (''name'', PyStr ''Bob'')])])"
proof -
  have p: "1 \<in> set (keys [(1::int, [(''name'', PyStr ''Alice''), (''age'', PyInt 30)])])"
    by (simp add: keys_def)
  show ?thesis
    using p update_replaces_whole_record
      [OF p, of "[(''name'', PyStr ''Bob'')]" "\<lparr>name = ''Bob'', user_type = ADMIN\<rparr>"]
    by (simp add: keys_def setitem_def id_and_fields_def dict_update_def update_item_def
        Let_def getitem_def)
qed

section \<open>Merging the supplied fields\<close>

lemma keys_model_dump_exclude_unset:
  "set (keys (model_dump_exclude_unset upd)) = {''name'', ''age''} \<inter> set (model_fields_set upd)"
  by (auto simp: model_dump_exclude_unset_def keys_def)

lemma map_of_rev_model_dump:
  "map_of (rev (model_dump_exclude_unset upd)) = map_of (model_dump_exclude_unset upd)"
  by (auto simp: model_dump_exclude_unset_def fun_eq_iff)

lemma map_of_model_dump_name:
  "''name'' \<in> set (model_fields_set upd) \<Longrightarrow>
   map_of (model_dump_exclude_unset upd) ''name'' = Some (opt_str (upd_name upd))"
  by (simp add: model_dump_exclude_unset_def)

lemma map_of_model_dump_age:
  "''age'' \<in> set (model_fields_set upd) \<Longrightarrow>
   map_of (model_dump_exclude_unset upd) ''age'' = Some (opt_int (upd_age upd))"
  by (simp add: model_dump_exclude_unset_def)

lemma map_of_merge:
  "map_of (dict_update user (model_dump_exclude_unset upd)) k =
     (if k \<in> set (keys (model_dump_exclude_unset upd))
      then map_of (model_dump_exclude_unset upd) k else map_of user k)"
  by (auto simp: map_of_dict_update map_of_rev_model_dump map_add_def in_keys_iff
      split: option.splits)

text \<open>
  C3. On a key of the dictionary the \<^verbatim>\<open>PATCH\<close> handler \<^verbatim>\<open>update_user\<close> stores
  and returns the old record updated with the fields that the request supplied, and
  leaves the other records alone. The updated keys are the fields in
  \<^verbatim>\<open>model_fields_set\<close>; each of them gets the value of the request, every other key
  of the record keeps its value. A field supplied as \<^verbatim>\<open>null\<close> is among the updated
  keys and becomes \<^verbatim>\<open>None\<close>; a field left out is not touched. Merging
  \<^verbatim>\<open>{"age": 31}\<close> into \<^verbatim>\<open>{"name": "Alice", "age": 30}\<close> gives
  \<^verbatim>\<open>{"name": "Alice", "age": 31}\<close>.
\<close>

theorem patch_update_user_merges_supplied_fields:
  assumes "map_of db i = Some user"
  shows "patch_update_user db i upd =
           (Inr (dict_update user (model_dump_exclude_unset upd)),
            setitem db i (dict_update user (model_dump_exclude_unset upd)))
         \<and> map_of (snd (patch_update_user db i upd)) i =
             Some (dict_update user (model_dump_exclude_unset upd))
         \<and> (\<forall>j. j \<noteq> i \<longrightarrow> map_of (snd (patch_update_user db i upd)) j = map_of db j)
         \<and> set (keys (model_dump_exclude_unset upd)) =
             {''name'', ''age''} \<inter> set (model_fields_set upd)
         \<and> (\<forall>k. map_of (dict_update user (model_dump_exclude_unset upd)) k =
               (if k \<in> set (keys (model_dump_exclude_unset upd))
                then map_of (model_dump_exclude_unset upd) k else map_of user k))
         \<and> (''name'' \<in> set (model_fields_set upd) \<longrightarrow>
               map_of (dict_update user (model_dump_exclude_unset upd)) ''name'' =
                 Some (case upd_name upd of None \<Rightarrow> PyNone | Some v \<Rightarrow> PyStr v))
         \<and> (''age'' \<in> set (model_fields_set upd) \<longrightarrow>
               map_of (dict_update user (model_dump_exclude_unset upd)) ''age'' =
                 Some (case upd_age upd of None \<Rightarrow> PyNone | Some n \<Rightarrow> PyInt n))
         \<and> (''name'' \<notin> set (model_fields_set upd) \<longrightarrow>
               map_of (dict_update user (model_dump_exclude_unset upd)) ''name'' =
                 map_of user ''name'')
         \<and> (''age'' \<notin> set (model_fields_set upd) \<longrightarrow>
               map_of (dict_update user (model_dump_exclude_unset upd)) ''age'' =
                 map_of user ''age'')
         \<and> patch_update_user [(i, [(''name'', PyStr ''Alice''), (''age'', PyInt 30)])] i
             \<lparr>upd_name = None, upd_age = Some 31, model_fields_set = [''age'']\<rparr> =
           (Inr [(''name'', PyStr ''Alice''), (''age'', PyInt 31)],
            [(i, [(''name'', PyStr ''Alice''), (''age'', PyInt 31)])])"
proof (intro conjI allI impI)
  show pu: "patch_update_user db i upd =
           (Inr (dict_update user (model_dump_exclude_unset upd)),
            setitem db i (dict_update user (model_dump_exclude_unset upd)))"
    by (rule patch_update_user_present [OF assms])
  show "map_of (snd (patch_update_user db i upd)) i =
             Some (dict_update user (model_dump_exclude_unset upd))"
    by (simp add: pu map_of_setitem)
  show "set (keys (model_dump_exclude_unset upd)) =
             {''name'', ''age''} \<inter> set (model_fields_set upd)"
    by (rule keys_model_dump_exclude_unset)
  show "patch_update_user [(i, [(''name'', PyStr ''Alice''), (''age'', PyInt 30)])] i
             \<lparr>upd_name = None, upd_age = Some 31, model_fields_set = [''age'']\<rparr> =
           (Inr [(''name'', PyStr ''Alice''), (''age'', PyInt 31)],
            [(i, [(''name'', PyStr ''Alice''), (''age'', PyInt 31)])])"
    by (simp add: patch_update_user_def keys_def getitem_def Let_def
        model_dump_exclude_unset_def dict_update_def setitem_def opt_int_def)
next
  fix j assume "j \<noteq> i"
  then show "map_of (snd (patch_update_user db i upd)) j = map_of db j"
    by (simp add: patch_update_user_present [OF assms] map_of_setitem)
next
  fix k
  show "map_of (dict_update user (model_dump_exclude_unset upd)) k =
               (if k \<in> set (keys (model_dump_exclude_unset upd))
                then map_of (model_dump_exclude_unset upd) k else map_of user k)"
    by (rule map_of_merge)
next
  assume "''name'' \<in> set (model_fields_set upd)"
  then show "map_of (dict_update user (model_dump_exclude_unset upd)) ''name'' =
                 Some (case upd_name upd of None \<Rightarrow> PyNone | Some v \<Rightarrow> PyStr v)"
    by (simp add: map_of_merge keys_model_dump_exclude_unset map_of_model_dump_name opt_str_def)
next
  assume "''age'' \<in> set (model_fields_set upd)"
  then show "map_of (dict_update user (model_dump_exclude_unset upd)) ''age'' =
                 Some (case upd_age upd of None \<Rightarrow> PyNone | Some n \<Rightarrow> PyInt n)"
    by (simp add: map_of_merge keys_model_dump_exclude_unset map_of_model_dump_age opt_int_def)
next
  assume "''name'' \<notin> set (model_fields_set upd)"
  then show "map_of (dict_update user (model_dump_exclude_unset upd)) ''name'' =
                 map_of user ''name''"
    by (simp add: map_of_merge keys_model_dump_exclude_unset)
next
  assume "''age'' \<notin> set (model_fields_set upd)"
  then show "map_of (dict_update user (model_dump_exclude_unset upd)) ''age'' =
                 map_of user ''age''"
    by (simp add: map_of_merge keys_model_dump_exclude_unset)
qed

theorem patch_update_user_merges_supplied_fields_witness:
  "map_of dummy_db 1 = Some [(''name'', PyStr ''Alice''), (''age'', PyInt 30)]
   \<and> patch_update_user dummy_db 1
       \<lparr>upd_name = None, upd_age = Some 31, model_fields_set = [''age'']\<rparr> =
     (Inr [(''name'', PyStr ''Alice''), (''age'', PyInt 31)],
      [(1, [(''name'', PyStr ''Alice''), (''age'', PyInt 31)]),
       (2, [(''name'', PyStr ''Bob''), (''age'', PyInt 25)]),
       (3, [(''name'', PyStr ''Charlie''), (''age'', PyInt 35)])])
   \<and> map_of (dict_update [(''name'', PyStr ''Alice''), (''age'', PyInt 30)]
       (model_dump_exclude_unset
         \<lparr>upd_name = None, upd_age = None, model_fields_set = [''name'']\<rparr>)) ''name'' = Some PyNone
   \<and> map_of (dict_update [(''name'', PyStr ''Alice''), (''age'', PyInt 30)]
       (model_dump_exclude_unset
         \<lparr>upd_name = None, upd_age = None, model_fields_set = [''name'']\<rparr>)) ''age'' =
       Some (PyInt 30)"
proof -
  have p: "map_of dummy_db 1 = Some [(''name'', PyStr ''Alice''), (''age'', PyInt 30)]"
    by (simp add: dummy_db_def)
  show ?thesis
    using p
      patch_update_user_merges_supplied_fields
        [OF p, of "\<lparr>upd_name = None, upd_age = Some 31, model_fields_set = [''age'']\<rparr>"]
      patch_update_user_merges_supplied_fields
        [OF p, of "\<lparr>upd_name = None, upd_age = None, model_fields_set = [''name'']\<rparr>"]
    by (simp add: dummy_db_def model_dump_exclude_unset_def dict_update_def setitem_def
        opt_int_def opt_str_def)
qed

section \<open>What a create call stores and what it returns\<close>

lemma map_of_rev_distinct: "distinct (map fst xs) \<Longrightarrow> map_of (rev xs) = map_of xs"
proof (induction xs)
  case Nil
  then show ?case by simp
next
  case (Cons a xs)
  obtain k v where a: "a = (k, v)" by (cases a)
  from Cons.prems have "map_of xs k = None"
    by (simp add: a map_of_eq_None_iff)
  with Cons show ?case
    by (auto simp: a fun_eq_iff map_add_def split: option.splits)
qed

lemma map_of_id_and_fields:
  "distinct (keys fs) \<Longrightarrow>
   map_of (id_and_fields n fs) k =
     (if k \<in> set (keys fs) then map_of fs k
      else if k = ''id'' then Some (PyInt n) else None)"
proof -
  assume "distinct (keys fs)"
  then have "map_of (rev fs) = map_of fs"
    by (simp add: keys_def map_of_rev_distinct)
  then have "map_of (id_and_fields n fs) = map_of [(''id'', PyInt n)] ++ map_of fs"
    by (simp add: id_and_fields_def map_of_dict_update)
  then show ?thesis
    by (auto simp: map_add_def in_keys_iff split: option.splits)
qed

text \<open>
  C7, as the handlers have it. On a non-empty dictionary both create handlers store
  \<^verbatim>\<open>{'id': new_id, **fields}\<close> under the new identifier. \<^verbatim>\<open>create_item\<close>
  returns that stored record: it has every field of the request with the request's
  value and, unless the request has a field \<^verbatim>\<open>id\<close> of its own, the new identifier.
  \<^verbatim>\<open>create_user\<close> returns a \<^verbatim>\<open>UserOut\<close>, which has the new identifier and the
  \<^verbatim>\<open>user_type\<close> of the request and no other field, while the stored record has
  the \<^verbatim>\<open>name\<close> of the request as well.
\<close>

theorem create_stores_record:
  assumes "s \<noteq> []"
  shows "create_item s item =
           (Inr (id_and_fields (Max (set (keys s)) + 1) item),
            setitem s (Max (set (keys s)) + 1) (id_and_fields (Max (set (keys s)) + 1) item))
         \<and> getitem (snd (create_item s item)) (Max (set (keys s)) + 1) =
             Inr (id_and_fields (Max (set (keys s)) + 1) item)
         \<and> (distinct (keys item) \<longrightarrow>
              (\<forall>k. k \<in> set (keys item) \<longrightarrow>
                 map_of (id_and_fields (Max (set (keys s)) + 1) item) k = map_of item k)
            \<and> (''id'' \<notin> set (keys item) \<longrightarrow>
                 map_of (id_and_fields (Max (set (keys s)) + 1) item) ''id'' =
                   Some (PyInt (Max (set (keys s)) + 1))))
         \<and> create_user s user =
           (Inr \<lparr>out_id = Max (set (keys s)) + 1, out_user_type = user_type user\<rparr>,
            setitem s (Max (set (keys s)) + 1)
              (id_and_fields (Max (set (keys s)) + 1) (UserIn_dict user)))
         \<and> getitem (snd (create_user s user)) (Max (set (keys s)) + 1) =
             Inr [(''id'', PyInt (Max (set (keys s)) + 1)), (''name'', PyStr (name user)),
                  (''user_type'', PyStr (UserType_value (user_type user)))]
         \<and> UserOut_dict \<lparr>out_id = Max (set (keys s)) + 1, out_user_type = user_type user\<rparr> =
             [(''id'', PyInt (Max (set (keys s)) + 1)),
              (''user_type'', PyStr (UserType_value (user_type user)))]"
proof (intro conjI allI impI)
  show ci: "create_item s item =
           (Inr (id_and_fields (Max (set (keys s)) + 1) item),
            setitem s (Max (set (keys s)) + 1) (id_and_fields (Max (set (keys s)) + 1) item))"
    using assms by (simp add: create_item_def py_max_nonempty Let_def getitem_setitem_same)
  show "getitem (snd (create_item s item)) (Max (set (keys s)) + 1) =
             Inr (id_and_fields (Max (set (keys s)) + 1) item)"
    by (simp add: ci getitem_setitem_same)
  show cu: "create_user s user =
           (Inr \<lparr>out_id = Max (set (keys s)) + 1, out_user_type = user_type user\<rparr>,
            setitem s (Max (set (keys s)) + 1)
              (id_and_fields (Max (set (keys s)) + 1) (UserIn_dict user)))"
    using assms by (simp add: create_user_def py_max_nonempty Let_def)
  show "getitem (snd (create_user s user)) (Max (set (keys s)) + 1) =
             Inr [(''id'', PyInt (Max (set (keys s)) + 1)), (''name'', PyStr (name user)),
                  (''user_type'', PyStr (UserType_value (user_type user)))]"
    by (simp add: cu getitem_setitem_same id_and_fields_UserIn_dict)
  show "UserOut_dict \<lparr>out_id = Max (set (keys s)) + 1, out_user_type = user_type user\<rparr> =
             [(''id'', PyInt (Max (set (keys s)) + 1)),
              (''user_type'', PyStr (UserType_value (user_type user)))]"
    by (simp add: UserOut_dict_def)
next
  fix k assume "distinct (keys item)" "k \<in> set (keys item)"
  then show "map_of (id_and_fields (Max (set (keys s)) + 1) item) k = map_of item k"
    by (simp add: map_of_id_and_fields)
next
  assume "distinct (keys item)" "''id'' \<notin> set (keys item)"
  then show "map_of (id_and_fields (Max (set (keys s)) + 1) item) ''id'' =
                   Some (PyInt (Max (set (keys s)) + 1))"
    by (simp add: map_of_id_and_fields)
qed

theorem create_stores_record_witness:
  "[(1::int, [] :: record_dict)] \<noteq> []
   \<and> distinct (keys [(''price'', PyInt 5)])
   \<and> ''id'' \<notin> set (keys [(''price'', PyInt 5)])
   \<and> create_item [(1, [])] [(''price'', PyInt 5)] =
       (Inr [(''id'', PyInt 2), (''price'', PyInt 5)],
        [(1, []), (2, [(''id'', PyInt 2), (''price'', PyInt 5)])])
   \<and> create_user [(1, [])] \<lparr>name = ''Bob'', user_type = ADMIN\<rparr> =
       (Inr \<lparr>out_id = 2, out_user_type = ADMIN\<rparr>,
        [(1, []), (2, [(''id'', PyInt 2), (''name'', PyStr ''Bob''),
                       (''user_type'', PyStr ''Admin'')])])"
proof -
  have p: "[(1::int, [] :: record_dict)] \<noteq> []" by simp
  show ?thesis
    using create_stores_record
      [OF p, of "[(''price'', PyInt 5)]" "\<lparr>name = ''Bob'', user_type = ADMIN\<rparr>"]
    by (simp add: keys_def setitem_def id_and_fields_def dict_update_def UserIn_dict_def)
qed

text \<open>
  The value \<^verbatim>\<open>create_user\<close> returns is not the record it stored: the stored
  record has the \<^verbatim>\<open>name\<close> of the request, the returned \<^verbatim>\<open>UserOut\<close> has not.
\<close>

theorem create_user_returns_no_name:
  "fst (create_user [(1, [])] \<lparr>name = ''Bob'', user_type = ADMIN\<rparr>) =
     Inr \<lparr>out_id = 2, out_user_type = ADMIN\<rparr>
   \<and> getitem (snd (create_user [(1, [])] \<lparr>name = ''Bob'', user_type = ADMIN\<rparr>)) 2 =
     Inr [(''id'', PyInt 2), (''name'', PyStr ''Bob''), (''user_type'', PyStr ''Admin'')]
   \<and> UserOut_dict \<lparr>out_id = 2, out_user_type = ADMIN\<rparr> \<noteq>
     [(''id'', PyInt 2), (''name'', PyStr ''Bob''), (''user_type'', PyStr ''Admin'')]
   \<and> map_of (UserOut_dict \<lparr>out_id = 2, out_user_type = ADMIN\<rparr>) ''name'' = None
   \<and> map_of (UserIn_dict \<lparr>name = ''Bob'', user_type = ADMIN\<rparr>) ''name'' = Some (PyStr ''Bob'')"
  by (simp add: create_user_def keys_def Let_def setitem_def getitem_def
      id_and_fields_def dict_update_def UserOut_dict_def UserIn_dict_def)

section \<open>Identifiers after a deletion\<close>

lemma keys_Nil: "keys [] = []"
  by (simp add: keys_def)

lemma set_keys_delete: "set (keys (AList.delete j d)) = set (keys d) - {j}"
  by (simp add: keys_def delete_keys)

lemma create_entry_cases:
  assumes "(s, n) \<in> set (create_entry s0 c r)"
  obtains u out where "c = CreateUser u" and "r = Inr (Out out)" and "s = s0" and "n = out_id out"
  using assms by (cases "(s0, c, r)" rule: create_entry.cases) auto

lemma create_entry_created_ids:
  "map snd (create_entry s c r) @ created_ids cs rs = created_ids (c # cs) (r # rs)"
  by (cases "(s, c, r)" rule: create_entry.cases) auto

lemma successful_creates_created_ids:
  "map snd (successful_creates s cs) = created_ids cs (fst (run_users s cs))"
proof (induction cs arbitrary: s)
  case Nil
  then show ?case by simp
next
  case (Cons c cs)
  obtain r s' where step: "call_user s c = (r, s')" by (cases "call_user s c")
  obtain rs s'' where rest: "run_users s' cs = (rs, s'')" by (cases "run_users s' cs")
  have "map snd (successful_creates s (c # cs)) =
      map snd (create_entry s c r) @ created_ids cs rs"
    using Cons.IH [of s'] by (simp add: step rest)
  also have "\<dots> = created_ids (c # cs) (r # rs)"
    by (rule create_entry_created_ids)
  finally show ?case by (simp add: step rest)
qed

lemma successful_creates_id:
  assumes "(s, n) \<in> set (successful_creates s0 cs)"
  shows "s \<noteq> [] \<and> n = Max (set (keys s)) + 1"
  using assms
proof (induction cs arbitrary: s0)
  case Nil
  then show ?case by simp
next
  case (Cons c cs)
  obtain r s' where step: "call_user s0 c = (r, s')" by (cases "call_user s0 c")
  from Cons.prems step
  consider "(s, n) \<in> set (create_entry s0 c r)" | "(s, n) \<in> set (successful_creates s' cs)"
    by auto
  then show ?case
  proof cases
    case 1
    then obtain u out where c: "c = CreateUser u" and r: "r = Inr (Out out)"
      and s: "s = s0" and n: "n = out_id out"
      by (rule create_entry_cases)
    from step c r have "fst (create_user s0 u) = Inr out"
      by (cases "create_user s0 u") (auto simp: map_sum_def split: sum.splits)
    then have "create_user s0 u = (Inr out, snd (create_user s0 u))"
      by (cases "create_user s0 u") simp
    from create_user_Inr(1,2) [OF this] show ?thesis
      by (simp add: s n)
  next
    case 2
    then show ?thesis by (rule Cons.IH)
  qed
qed

text \<open>
  C2, as the handlers have it. After a successful \<^verbatim>\<open>delete_user\<close> the identifier
  is no key of the dictionary. Whatever calls follow, every \<^verbatim>\<open>create_user\<close> among
  them that returns an identifier is called on a non-empty dictionary and returns its
  largest key plus one, which is greater than every key it has at that moment. So such
  a call does not return the deleted identifier while the dictionary holds a key that
  is at least the deleted identifier, and it returns the deleted identifier exactly
  when the largest key is then the deleted identifier minus one.
\<close>

theorem deleted_id_reused_only_above_all_keys:
  assumes "delete_user users i = (Inr (), users')"
  shows "i \<notin> set (keys users')
         \<and> map snd (successful_creates users' cs) = created_ids cs (fst (run_users users' cs))
         \<and> (\<forall>(s, n) \<in> set (successful_creates users' cs).
               s \<noteq> [] \<and> n = Max (set (keys s)) + 1
             \<and> (\<forall>k \<in> set (keys s). k < n)
             \<and> ((\<exists>k \<in> set (keys s). i \<le> k) \<longrightarrow> n \<noteq> i)
             \<and> (n = i \<longleftrightarrow> Max (set (keys s)) = i - 1))"
proof (intro conjI)
  have present: "i \<in> set (keys users)"
    using assms by (auto simp: delete_user_def split: if_splits)
  from assms have "users' = AList.delete i users"
    by (simp add: delete_user_present [OF present])
  then show "i \<notin> set (keys users')"
    by (simp add: set_keys_delete)
  show "map snd (successful_creates users' cs) = created_ids cs (fst (run_users users' cs))"
    by (rule successful_creates_created_ids)
  show "\<forall>(s, n) \<in> set (successful_creates users' cs).
               s \<noteq> [] \<and> n = Max (set (keys s)) + 1
             \<and> (\<forall>k \<in> set (keys s). k < n)
             \<and> ((\<exists>k \<in> set (keys s). i \<le> k) \<longrightarrow> n \<noteq> i)
             \<and> (n = i \<longleftrightarrow> Max (set (keys s)) = i - 1)"
  proof -
    have "s \<noteq> [] \<and> n = Max (set (keys s)) + 1
             \<and> (\<forall>k \<in> set (keys s). k < n)
             \<and> ((\<exists>k \<in> set (keys s). i \<le> k) \<longrightarrow> n \<noteq> i)
             \<and> (n = i \<longleftrightarrow> Max (set (keys s)) = i - 1)"
      if m: "(s, n) \<in> set (successful_creates users' cs)" for s n
    proof -
      from successful_creates_id [OF m]
      have ne: "s \<noteq> []" and n: "n = Max (set (keys s)) + 1" by simp_all
      have below: "k < n" if "k \<in> set (keys s)" for k
      proof -
        from that have "k \<le> Max (set (keys s))" by (intro Max_ge) simp_all
        then show ?thesis by (simp add: n)
      qed
      have "(\<exists>k \<in> set (keys s). i \<le> k) \<longrightarrow> n \<noteq> i"
        using below by fastforce
      moreover have "n = i \<longleftrightarrow> Max (set (keys s)) = i - 1"
        using n by auto
      ultimately show ?thesis
        using ne n below by blast
    qed
    then show ?thesis by blast
  qed
qed

theorem deleted_id_reused_only_above_all_keys_witness:
  "delete_user dummy_db 1 =
     (Inr (), [(2, [(''name'', PyStr ''Bob''), (''age'', PyInt 25)]),
               (3, [(''name'', PyStr ''Charlie''), (''age'', PyInt 35)])])
   \<and> successful_creates
       [(2, [(''name'', PyStr ''Bob''), (''age'', PyInt 25)]),
        (3, [(''name'', PyStr ''Charlie''), (''age'', PyInt 35)])]
       [DeleteUser 3, DeleteUser 99, CreateUser \<lparr>name = ''Dora'', user_type = CUSTOMER\<rparr>] =
     [([(2, [(''name'', PyStr ''Bob''), (''age'', PyInt 25)])], 3)]
   \<and> (\<exists>k \<in> set (keys [(2::int, [(''name'', PyStr ''Bob''), (''age'', PyInt 25)])]). 1 \<le> k)
   \<and> (3::int) \<noteq> 1"
proof -
  have d: "delete_user dummy_db 1 =
     (Inr (), [(2, [(''name'', PyStr ''Bob''), (''age'', PyInt 25)]),
               (3, [(''name'', PyStr ''Charlie''), (''age'', PyInt 35)])])"
    by (simp add: dummy_db_def delete_user_def delitem_def keys_def)
  have c: "successful_creates
       [(2, [(''name'', PyStr ''Bob''), (''age'', PyInt 25)]),
        (3, [(''name'', PyStr ''Charlie''), (''age'', PyInt 35)])]
       [DeleteUser 3, DeleteUser 99, CreateUser \<lparr>name = ''Dora'', user_type = CUSTOMER\<rparr>] =
     [([(2, [(''name'', PyStr ''Bob''), (''age'', PyInt 25)])], 3)]"
    by (simp add: delete_user_def delitem_def create_user_def keys_def Let_def)
  show ?thesis
    using d c
      deleted_id_reused_only_above_all_keys
        [OF d, of "[DeleteUser 3, DeleteUser 99,
                    CreateUser \<lparr>name = ''Dora'', user_type = CUSTOMER\<rparr>]"]
    by (simp add: keys_def)
qed

text \<open>
  With the keys 1 and 2, deleting 2 and creating a user next returns the identifier 2
  a second time.
\<close>

theorem deleted_id_2_is_returned_again:
  "run_users [(1, []), (2, [])] [DeleteUser 2, CreateUser \<lparr>name = ''Bob'', user_type = ADMIN\<rparr>] =
     ([Inr NoContent, Inr (Out \<lparr>out_id = 2, out_user_type = ADMIN\<rparr>)],
      [(1, []), (2, [(''id'', PyInt 2), (''name'', PyStr ''Bob''), (''user_type'', PyStr ''Admin'')])])
   \<and> created_ids [DeleteUser 2, CreateUser \<lparr>name = ''Bob'', user_type = ADMIN\<rparr>]
       [Inr NoContent, Inr (Out \<lparr>out_id = 2, out_user_type = ADMIN\<rparr>)] = [2]"
  by (simp add: delete_user_def delitem_def create_user_def keys_def Let_def setitem_def
      id_and_fields_def dict_update_def UserIn_dict_def)

section \<open>Runs of create calls\<close>

text \<open>
  On a non-empty dictionary the identifier of \<^verbatim>\<open>create_user\<close> is greater than
  every key, and the identifiers that a run of \<^verbatim>\<open>create_user\<close> calls returns are
  strictly increasing, hence pairwise different.
\<close>

lemma create_only_ids_increasing:
  assumes "\<forall>c \<in> set cs. \<exists>u. c = CreateUser u"
  shows "sorted_wrt (<) (created_ids cs (fst (run_users s cs)))
         \<and> (\<forall>n \<in> set (created_ids cs (fst (run_users s cs))). \<forall>k \<in> set (keys s). k < n)"
  using assms
proof (induction cs arbitrary: s)
  case Nil
  then show ?case by simp
next
  case (Cons c cs)
  from Cons.prems obtain u where c: "c = CreateUser u" by auto
  from Cons.prems have all: "\<forall>c \<in> set cs. \<exists>u. c = CreateUser u" by simp
  show ?case
  proof (cases "s = []")
    case True
    then have step: "call_user s c = (Inl ValueError, [])"
      by (simp add: c create_user_def keys_Nil)
    obtain rs s'' where rest: "run_users [] cs = (rs, s'')" by (cases "run_users [] cs")
    have run: "fst (run_users s (c # cs)) = Inl ValueError # rs"
      by (simp add: step rest)
    from Cons.IH [OF all, of "[]"] rest show ?thesis
      unfolding run by (simp add: c True keys_Nil)
  next
    case False
    let ?n = "Max (set (keys s)) + 1"
    let ?s' = "setitem s ?n (id_and_fields ?n (UserIn_dict u))"
    have step: "call_user s c = (Inr (Out \<lparr>out_id = ?n, out_user_type = user_type u\<rparr>), ?s')"
      using False by (simp add: c create_user_def py_max_nonempty Let_def)
    obtain rs s'' where rest: "run_users ?s' cs = (rs, s'')" by (cases "run_users ?s' cs")
    have run: "fst (run_users s (c # cs)) =
        Inr (Out \<lparr>out_id = ?n, out_user_type = user_type u\<rparr>) # rs"
      by (simp add: step rest)
    from Cons.IH [OF all, of ?s'] rest
    have ih: "sorted_wrt (<) (created_ids cs rs)"
      "\<forall>n \<in> set (created_ids cs rs). \<forall>k \<in> insert ?n (set (keys s)). k < n"
      by (simp_all add: set_keys_setitem)
    have below: "\<forall>k \<in> set (keys s). k < ?n"
    proof
      fix k assume "k \<in> set (keys s)"
      then have "k \<le> Max (set (keys s))" by (intro Max_ge) simp_all
      then show "k < ?n" by simp
    qed
    show ?thesis
      unfolding run using ih below by (simp add: c)
  qed
qed

end
